theory Spec2Isabelle
  imports Main
begin

section \<open>The Maps Account resource: data model\<close>

text \<open>
  The file \<^verbatim>\<open>maps_account_resource.go\<close> holds three handlers
  (\<^verbatim>\<open>resourceMapsAccountCreateUpdate\<close>, \<^verbatim>\<open>resourceMapsAccountRead\<close>,
  \<^verbatim>\<open>resourceMapsAccountDelete\<close>) that the plugin host calls with the resource data
  \<^verbatim>\<open>d\<close> and the shared client object \<^verbatim>\<open>meta\<close>. Each handler returns a Go
  \<^verbatim>\<open>error\<close>; \<^verbatim>\<open>nil\<close> is \<open>None\<close> here. The handlers mutate \<^verbatim>\<open>d\<close> and the
  remote service, so the model passes both explicitly and returns them updated.
  The scoped deadline (\<^verbatim>\<open>timeouts.ForRead\<close> and friends, \<^verbatim>\<open>defer cancel()\<close>)
  and \<^verbatim>\<open>log.Printf\<close> have no effect on the results and are left out.
\<close>

subsection \<open>Errors\<close>

text \<open>
  An error value made by a collaborator (the SDK client, the identifier codec) is
  known by its message only.
\<close>

type_synonym ext_error = string

text \<open>
  The Go \<^verbatim>\<open>error\<close> a handler returns. \<open>ExternalError\<close> is a collaborator's
  error handed on as it is (\<^verbatim>\<open>return err\<close>). Each \<^verbatim>\<open>fmt.Errorf\<close> of the file
  is one constructor carrying the values formatted into the message, in the order of
  the format string (name, resource group, cause). \<open>ImportAsExistsError\<close> is
  \<^verbatim>\<open>tf.ImportAsExistsError(resourceName, id)\<close>, the "already exists" condition.
\<close>

datatype error =
    ExternalError ext_error
  | ErrorCheckingPresence string string ext_error
  | ImportAsExistsError string string
  | ErrorCreatingUpdating string string ext_error
  | ErrorRetrieving string string ext_error
  | CannotReadID string string
  | ErrorMakingReadRequest string string ext_error
  | ErrorMakingReadAccessKeysRequest string string ext_error
  | ErrorDeleting string string ext_error

subsection \<open>SDK types\<close>

text \<open>
  \<^verbatim>\<open>autorest.Response\<close> embeds a \<^verbatim>\<open>*http.Response\<close>; only what the helper
  \<^verbatim>\<open>utils.ResponseWasNotFound\<close> can look at is kept: the status code, if there is
  a response at all.
\<close>

type_synonym http_response = "nat option"

text \<open>\<^verbatim>\<open>map[string]interface{}\<close> of the schema and \<^verbatim>\<open>map[string]*string\<close> of the SDK.\<close>

type_synonym tags_local = "string \<rightharpoonup> string"
type_synonym tags_remote = "string \<rightharpoonup> string option"

text \<open>\<^verbatim>\<open>maps.Sku\<close>; its field \<^verbatim>\<open>Name\<close> is called \<open>SkuName\<close> here.\<close>

record Sku =
  SkuName :: string

record AccountProperties =
  UniqueID :: "string option"

text \<open>\<^verbatim>\<open>maps.Account\<close>: a pointer field is an option, \<^verbatim>\<open>nil\<close> is \<open>None\<close>.\<close>

record Account =
  Response :: http_response
  ID :: "string option"
  Location :: "string option"
  Sku :: "Sku option"
  Properties :: "AccountProperties option"
  Tags :: tags_remote

record AccountKeys =
  PrimaryKey :: "string option"
  SecondaryKey :: "string option"

text \<open>\<^verbatim>\<open>parse.AccountId\<close>, the decoded compound identifier.\<close>

record AccountId =
  ResourceGroup :: string
  Name :: string

subsection \<open>The resource data\<close>

text \<open>
  \<^verbatim>\<open>*pluginsdk.ResourceData\<close>: the identifier, the is-new flag and the attributes by
  schema key. A stored value is what the handler passed to \<^verbatim>\<open>d.Set\<close>: a string,
  a \<^verbatim>\<open>*string\<close>, or a tag map.
\<close>

datatype attr_value =
    VString string
  | VStringPtr "string option"
  | VTags tags_local

record ResourceData =
  Id :: string
  IsNewResource :: bool
  attrs :: "string \<rightharpoonup> attr_value"

text \<open>
  \<^verbatim>\<open>d.Get(key).(string)\<close>: the stored string, the zero value \<^verbatim>\<open>""\<close> when the key
  holds none.
\<close>

definition d_Get_string :: "ResourceData \<Rightarrow> string \<Rightarrow> string" where
  "d_Get_string d k =
     (case attrs d k of
        Some (VString s) \<Rightarrow> s
      | Some (VStringPtr (Some s)) \<Rightarrow> s
      | _ \<Rightarrow> [])"

text \<open>\<^verbatim>\<open>d.Get(key).(map[string]interface{})\<close>.\<close>

definition d_Get_tags :: "ResourceData \<Rightarrow> string \<Rightarrow> tags_local" where
  "d_Get_tags d k = (case attrs d k of Some (VTags t) \<Rightarrow> t | _ \<Rightarrow> Map.empty)"

text \<open>
  \<^verbatim>\<open>d.Set(key, value)\<close>. The handlers pass values of the schema's types only and
  ignore the error \<^verbatim>\<open>d.Set\<close> returns, so it is a plain update here.
\<close>

definition d_Set :: "ResourceData \<Rightarrow> string \<Rightarrow> attr_value \<Rightarrow> ResourceData" where
  "d_Set d k v = d\<lparr>attrs := (attrs d)(k \<mapsto> v)\<rparr>"

definition d_SetId :: "ResourceData \<Rightarrow> string \<Rightarrow> ResourceData" where
  "d_SetId d i = d\<lparr>Id := i\<rparr>"

subsection \<open>The remote service and the other collaborators\<close>

text \<open>
  One remote call and what it returned. A Go call returns a value and an error
  together, and the handlers look at both, so both are recorded.
\<close>

datatype event =
    EvGet string string Account "ext_error option"
  | EvCreateOrUpdate string string Account Account "ext_error option"
  | EvDelete string string http_response "ext_error option"
  | EvListKeys string string AccountKeys "ext_error option"

text \<open>
  The remote service is a state \<open>world\<close> of any type \<open>'w\<close>; \<open>history\<close> lists the
  calls made so far, oldest first.
\<close>

record 'w remote =
  world :: 'w
  history :: "event list"

text \<open>
  What the file takes from outside, as parameters: the four operations of
  \<^verbatim>\<open>AccountsClient\<close> (each maps the remote state and its arguments to the returned
  pair and the next remote state), \<^verbatim>\<open>parse.AccountID\<close>,
  \<^verbatim>\<open>utils.ResponseWasNotFound\<close>, \<^verbatim>\<open>tags.Expand\<close> and \<^verbatim>\<open>tags.Flatten\<close>.
\<close>

record 'w deps =
  Get :: "'w \<Rightarrow> string \<Rightarrow> string \<Rightarrow> (Account \<times> ext_error option) \<times> 'w"
  CreateOrUpdate :: "'w \<Rightarrow> string \<Rightarrow> string \<Rightarrow> Account \<Rightarrow> (Account \<times> ext_error option) \<times> 'w"
  Delete :: "'w \<Rightarrow> string \<Rightarrow> string \<Rightarrow> (http_response \<times> ext_error option) \<times> 'w"
  ListKeys :: "'w \<Rightarrow> string \<Rightarrow> string \<Rightarrow> (AccountKeys \<times> ext_error option) \<times> 'w"
  AccountID :: "string \<Rightarrow> ext_error + AccountId"
  ResponseWasNotFound :: "http_response \<Rightarrow> bool"
  Expand :: "tags_local \<Rightarrow> tags_remote"
  Flatten :: "tags_remote \<Rightarrow> tags_local"

text \<open>\<^verbatim>\<open>client.Get(ctx, resourceGroup, name)\<close> and the other three, recording the call.\<close>

definition client_Get ::
  "'w deps \<Rightarrow> 'w remote \<Rightarrow> string \<Rightarrow> string \<Rightarrow> (Account \<times> ext_error option) \<times> 'w remote" where
  "client_Get deps r g n =
     (case Get deps (world r) g n of
        ((a, err), w) \<Rightarrow> ((a, err), \<lparr>world = w, history = history r @ [EvGet g n a err]\<rparr>))"

definition client_CreateOrUpdate ::
  "'w deps \<Rightarrow> 'w remote \<Rightarrow> string \<Rightarrow> string \<Rightarrow> Account \<Rightarrow> (Account \<times> ext_error option) \<times> 'w remote" where
  "client_CreateOrUpdate deps r g n p =
     (case CreateOrUpdate deps (world r) g n p of
        ((a, err), w) \<Rightarrow>
          ((a, err), \<lparr>world = w, history = history r @ [EvCreateOrUpdate g n p a err]\<rparr>))"

definition client_Delete ::
  "'w deps \<Rightarrow> 'w remote \<Rightarrow> string \<Rightarrow> string \<Rightarrow> (http_response \<times> ext_error option) \<times> 'w remote" where
  "client_Delete deps r g n =
     (case Delete deps (world r) g n of
        ((resp, err), w) \<Rightarrow>
          ((resp, err), \<lparr>world = w, history = history r @ [EvDelete g n resp err]\<rparr>))"

definition client_ListKeys ::
  "'w deps \<Rightarrow> 'w remote \<Rightarrow> string \<Rightarrow> string \<Rightarrow> (AccountKeys \<times> ext_error option) \<times> 'w remote" where
  "client_ListKeys deps r g n =
     (case ListKeys deps (world r) g n of
        ((k, err), w) \<Rightarrow> ((k, err), \<lparr>world = w, history = history r @ [EvListKeys g n k err]\<rparr>))"

text \<open>The calls made between the remote state \<open>r\<close> and the later remote state \<open>r'\<close>.\<close>

definition new_events :: "'w remote \<Rightarrow> 'w remote \<Rightarrow> event list" where
  "new_events r r' = drop (length (history r)) (history r')"

text \<open>
  Modelled from the spec: \<^verbatim>\<open>tags.FlattenAndSet\<close> is not among the sources. The
  spec says that Read "finally flattens the provider's tag representation into the
  local tag mapping": the flattened map is stored under \<^verbatim>\<open>tags\<close> and no error
  comes back.
\<close>

definition FlattenAndSet :: "'w deps \<Rightarrow> ResourceData \<Rightarrow> tags_remote \<Rightarrow> error option \<times> ResourceData" where
  "FlattenAndSet deps d t = (None, d_Set d ''tags'' (VTags (Flatten deps t)))"

section \<open>The handlers\<close>

subsection \<open>Read\<close>

definition resourceMapsAccountRead ::
  "'w deps \<Rightarrow> ResourceData \<Rightarrow> 'w remote \<Rightarrow> error option \<times> ResourceData \<times> 'w remote" where
  "resourceMapsAccountRead deps d r =
     (case AccountID deps (Id d) of
        Inl err \<Rightarrow> (Some (ExternalError err), d, r)
      | Inr aid \<Rightarrow>
         (case client_Get deps r (ResourceGroup aid) (Name aid) of
            ((resp, err), r1) \<Rightarrow>
              (case err of
                 Some e \<Rightarrow>
                   if ResponseWasNotFound deps (Response resp)
                   then (None, d_SetId d [], r1)
                   else (Some (ErrorMakingReadRequest (Name aid) (ResourceGroup aid) e), d, r1)
               | None \<Rightarrow>
                   let d1 = d_Set d ''name'' (VString (Name aid));
                       d2 = d_Set d1 ''resource_group_name'' (VString (ResourceGroup aid));
                       d3 = (case Sku resp of
                               Some sku \<Rightarrow> d_Set d2 ''sku_name'' (VString (SkuName sku))
                             | None \<Rightarrow> d2);
                       d4 = (case Properties resp of
                               Some props \<Rightarrow> d_Set d3 ''x_ms_client_id'' (VStringPtr (UniqueID props))
                             | None \<Rightarrow> d3)
                   in (case client_ListKeys deps r1 (ResourceGroup aid) (Name aid) of
                         ((keysResp, err2), r2) \<Rightarrow>
                           (case err2 of
                              Some e \<Rightarrow>
                                (Some (ErrorMakingReadAccessKeysRequest
                                         (Name aid) (ResourceGroup aid) e), d4, r2)
                            | None \<Rightarrow>
                                let d5 = d_Set d4 ''primary_access_key''
                                           (VStringPtr (PrimaryKey keysResp));
                                    d6 = d_Set d5 ''secondary_access_key''
                                           (VStringPtr (SecondaryKey keysResp))
                                in (case FlattenAndSet deps d6 (Tags resp) of
                                      (err3, d7) \<Rightarrow> (err3, d7, r2)))))))"

subsection \<open>Create and update\<close>

text \<open>The payload \<^verbatim>\<open>parameters\<close> of lines 108 to 114; every other field is \<^verbatim>\<open>nil\<close>.\<close>

definition parameters :: "'w deps \<Rightarrow> string \<Rightarrow> tags_local \<Rightarrow> Account" where
  "parameters deps sku t =
     \<lparr>Response = None, ID = None, Location = Some ''global'',
      Sku = Some \<lparr>SkuName = sku\<rparr>, Properties = None, Tags = Expand deps t\<rparr>"

text \<open>
  Lines 108 to 131, the statements after the \<^verbatim>\<open>if d.IsNewResource()\<close> block: the
  write of the payload, the follow-up fetch, \<^verbatim>\<open>d.SetId\<close> and the call of Read.
  The arguments \<open>name\<close>, \<open>resGroup\<close>, \<open>t\<close> and \<open>sku\<close> are the locals of lines 90
  to 93.
\<close>

definition createUpdate_write ::
  "'w deps \<Rightarrow> ResourceData \<Rightarrow> string \<Rightarrow> string \<Rightarrow> tags_local \<Rightarrow> string \<Rightarrow> 'w remote
     \<Rightarrow> error option \<times> ResourceData \<times> 'w remote" where
  "createUpdate_write deps d name resGroup t sku r =
     (case client_CreateOrUpdate deps r resGroup name (parameters deps sku t) of
           ((created, err), r1) \<Rightarrow>
             (case err of
                Some e \<Rightarrow> (Some (ErrorCreatingUpdating name resGroup e), d, r1)
              | None \<Rightarrow>
                 (case client_Get deps r1 resGroup name of
                    ((read, err2), r2) \<Rightarrow>
                      (case err2 of
                         Some e \<Rightarrow> (Some (ErrorRetrieving name resGroup e), d, r2)
                       | None \<Rightarrow>
                          (case ID read of
                             None \<Rightarrow> (Some (CannotReadID name resGroup), d, r2)
                           | Some i \<Rightarrow> resourceMapsAccountRead deps (d_SetId d i) r2)))))"

definition resourceMapsAccountCreateUpdate ::
  "'w deps \<Rightarrow> ResourceData \<Rightarrow> 'w remote \<Rightarrow> error option \<times> ResourceData \<times> 'w remote" where
  "resourceMapsAccountCreateUpdate deps d r =
     (let name = d_Get_string d ''name'';
          resGroup = d_Get_string d ''resource_group_name'';
          t = d_Get_tags d ''tags'';
          sku = d_Get_string d ''sku_name''
      in if IsNewResource d
         then (case client_Get deps r resGroup name of
                 ((existing, err), r0) \<Rightarrow>
                   if err \<noteq> None \<and> \<not> ResponseWasNotFound deps (Response existing)
                   then (Some (ErrorCheckingPresence name resGroup (the err)), d, r0)
                   else if ID existing \<noteq> None \<and> the (ID existing) \<noteq> []
                   then (Some (ImportAsExistsError ''azurerm_maps_account'' (the (ID existing))),
                         d, r0)
                   else createUpdate_write deps d name resGroup t sku r0)
         else createUpdate_write deps d name resGroup t sku r)"

subsection \<open>Delete\<close>

definition resourceMapsAccountDelete ::
  "'w deps \<Rightarrow> ResourceData \<Rightarrow> 'w remote \<Rightarrow> error option \<times> ResourceData \<times> 'w remote" where
  "resourceMapsAccountDelete deps d r =
     (case AccountID deps (Id d) of
        Inl err \<Rightarrow> (Some (ExternalError err), d, r)
      | Inr aid \<Rightarrow>
         (case client_Delete deps r (ResourceGroup aid) (Name aid) of
            ((resp, err), r1) \<Rightarrow>
              (case err of
                 Some e \<Rightarrow> (Some (ErrorDeleting (Name aid) (ResourceGroup aid) e), d, r1)
               | None \<Rightarrow> (None, d, r1))))"

section \<open>A small remote service to run the handlers on\<close>

text \<open>
  An in-memory service: the accounts by (resource group, name). The identifier of an
  account is \<open>group/name\<close>. Fetching or listing the keys of an absent account
  answers 404 with an error; deleting answers 200 whether the account is there or
  not. It serves to evaluate the handlers on concrete inputs.
\<close>

type_synonym store = "((string \<times> string) \<times> Account) list"

definition blank_account :: Account where
  "blank_account =
     \<lparr>Response = None, ID = None, Location = None, Sku = None, Properties = None,
      Tags = Map.empty\<rparr>"

definition store_Get :: "store \<Rightarrow> string \<Rightarrow> string \<Rightarrow> (Account \<times> ext_error option) \<times> store" where
  "store_Get w g n =
     (case map_of w (g, n) of
        Some a \<Rightarrow> ((a\<lparr>Response := Some 200\<rparr>, None), w)
      | None \<Rightarrow> ((blank_account\<lparr>Response := Some 404\<rparr>, Some ''not found''), w))"

definition store_CreateOrUpdate ::
  "store \<Rightarrow> string \<Rightarrow> string \<Rightarrow> Account \<Rightarrow> (Account \<times> ext_error option) \<times> store" where
  "store_CreateOrUpdate w g n p =
     (let a = p\<lparr>Response := Some 200, ID := Some (g @ ''/'' @ n),
                 Properties := Some \<lparr>UniqueID = Some ''client-1''\<rparr>\<rparr>
      in ((a, None), ((g, n), a) # w))"

definition store_Delete :: "store \<Rightarrow> string \<Rightarrow> string \<Rightarrow> (http_response \<times> ext_error option) \<times> store" where
  "store_Delete w g n = ((Some 200, None), filter (\<lambda>e. fst e \<noteq> (g, n)) w)"

definition store_ListKeys ::
  "store \<Rightarrow> string \<Rightarrow> string \<Rightarrow> (AccountKeys \<times> ext_error option) \<times> store" where
  "store_ListKeys w g n =
     (case map_of w (g, n) of
        Some a \<Rightarrow> ((\<lparr>PrimaryKey = Some ''key-1'', SecondaryKey = Some ''key-2''\<rparr>, None), w)
      | None \<Rightarrow> ((\<lparr>PrimaryKey = None, SecondaryKey = None\<rparr>, Some ''not found''), w))"

definition store_AccountID :: "string \<Rightarrow> ext_error + AccountId" where
  "store_AccountID s =
     (let g = takeWhile (\<lambda>c. c \<noteq> CHR ''/'') s;
          n = drop (Suc (length g)) s
      in if g = [] \<or> n = [] then Inl ''malformed identifier''
         else Inr \<lparr>ResourceGroup = g, Name = n\<rparr>)"

definition store_deps :: "store deps" where
  "store_deps =
     \<lparr>Get = store_Get, CreateOrUpdate = store_CreateOrUpdate, Delete = store_Delete,
      ListKeys = store_ListKeys, AccountID = store_AccountID,
      ResponseWasNotFound = (\<lambda>resp. resp = Some 404),
      Expand = (\<lambda>t k. map_option Some (t k)),
      Flatten = (\<lambda>t k. case t k of Some (Some v) \<Rightarrow> Some v | _ \<Rightarrow> None)\<rparr>"

text \<open>The desired state of the spec's example scenario, with no identifier yet.\<close>

definition mymaps :: ResourceData where
  "mymaps =
     \<lparr>Id = [], IsNewResource = True,
      attrs = [''name'' \<mapsto> VString ''mymaps'',
               ''resource_group_name'' \<mapsto> VString ''rg1'',
               ''sku_name'' \<mapsto> VString ''S0'']\<rparr>"

definition fresh :: "store remote" where
  "fresh = \<lparr>world = [], history = []\<rparr>"

text \<open>
  The resource data of an account that was created earlier (it carries the identifier),
  a service that already holds an account of that name, and that account as a fetch
  returns it.
\<close>

definition gone :: ResourceData where
  "gone = mymaps\<lparr>Id := ''rg1/mymaps'', IsNewResource := False\<rparr>"

definition taken :: "store remote" where
  "taken = \<lparr>world = [((''rg1'', ''mymaps''), blank_account\<lparr>ID := Some ''rg1/mymaps''\<rparr>)],
            history = []\<rparr>"

definition bare_account :: Account where
  "bare_account = blank_account\<lparr>Response := Some 200, ID := Some ''rg1/mymaps''\<rparr>"

text \<open>The values that a run on the example passes around.\<close>

definition not_found_account :: Account where
  "not_found_account = blank_account\<lparr>Response := Some 404\<rparr>"

definition payload :: Account where
  "payload = \<lparr>Response = None, ID = None, Location = Some ''global'',
              Sku = Some \<lparr>SkuName = ''S0''\<rparr>, Properties = None, Tags = Map.empty\<rparr>"

definition stored :: Account where
  "stored = \<lparr>Response = Some 200, ID = Some ''rg1/mymaps'', Location = Some ''global'',
             Sku = Some \<lparr>SkuName = ''S0''\<rparr>,
             Properties = Some \<lparr>UniqueID = Some ''client-1''\<rparr>, Tags = Map.empty\<rparr>"

definition the_keys :: AccountKeys where
  "the_keys = \<lparr>PrimaryKey = Some ''key-1'', SecondaryKey = Some ''key-2''\<rparr>"

definition created :: ResourceData where
  "created =
     \<lparr>Id = ''rg1/mymaps'', IsNewResource = True,
      attrs = (attrs mymaps)
               (''name'' \<mapsto> VString ''mymaps'',
                ''resource_group_name'' \<mapsto> VString ''rg1'',
                ''sku_name'' \<mapsto> VString ''S0'',
                ''x_ms_client_id'' \<mapsto> VStringPtr (Some ''client-1''),
                ''primary_access_key'' \<mapsto> VStringPtr (Some ''key-1''),
                ''secondary_access_key'' \<mapsto> VStringPtr (Some ''key-2''),
                ''tags'' \<mapsto> VTags Map.empty)\<rparr>"

definition after_create :: "store remote" where
  "after_create =
     \<lparr>world = [((''rg1'', ''mymaps''), stored)],
      history = [EvGet ''rg1'' ''mymaps'' not_found_account (Some ''not found''),
                 EvCreateOrUpdate ''rg1'' ''mymaps'' payload stored None,
                 EvGet ''rg1'' ''mymaps'' stored None,
                 EvGet ''rg1'' ''mymaps'' stored None,
                 EvListKeys ''rg1'' ''mymaps'' the_keys None]\<rparr>"

definition after_read :: "store remote" where
  "after_read =
     after_create\<lparr>history := history after_create @
                      [EvGet ''rg1'' ''mymaps'' stored None,
                       EvListKeys ''rg1'' ''mymaps'' the_keys None]\<rparr>"

text \<open>
  Three variations of the service: one whose fetch always fails with a server error, one
  that rejects every write, and one that stores the payload without assigning an
  identifier.
\<close>

definition broken_deps :: "store deps" where
  "broken_deps =
     store_deps\<lparr>Get :=
       (\<lambda>w g n. ((blank_account\<lparr>Response := Some 500\<rparr>, Some ''server error''), w))\<rparr>"

definition reject_deps :: "store deps" where
  "reject_deps =
     store_deps\<lparr>CreateOrUpdate :=
       (\<lambda>w g n p. ((blank_account\<lparr>Response := Some 500\<rparr>, Some ''server error''), w))\<rparr>"

definition no_id_deps :: "store deps" where
  "no_id_deps = store_deps\<lparr>CreateOrUpdate := (\<lambda>w g n p. ((p, None), ((g, n), p) # w))\<rparr>"

section \<open>Auxiliary notions\<close>

text \<open>
  The errors that \<^verbatim>\<open>resourceMapsAccountCreateUpdate\<close> raises itself, all of them before
  \<^verbatim>\<open>d.SetId\<close> on line 129: the failed probe, the conflict, the failed write, the
  failed follow-up fetch and the missing identifier.
\<close>

fun raised_before_SetId :: "error \<Rightarrow> bool" where
  "raised_before_SetId (ErrorCheckingPresence _ _ _) = True"
| "raised_before_SetId (ImportAsExistsError _ _) = True"
| "raised_before_SetId (ErrorCreatingUpdating _ _ _) = True"
| "raised_before_SetId (ErrorRetrieving _ _ _) = True"
| "raised_before_SetId (CannotReadID _ _) = True"
| "raised_before_SetId _ = False"

text \<open>
  What a round trip asks of the service. An account \<open>acct\<close> echoes a write of the
  payload \<open>p\<close> to the resource group \<open>g\<close> and the name \<open>n\<close> when the sku it
  reports, if any, has the sku name of \<open>p\<close>, and the identifier it carries, if any,
  decodes to \<open>g\<close> and \<open>n\<close>.
\<close>

definition echoes_write ::
  "'w deps \<Rightarrow> string \<Rightarrow> string \<Rightarrow> Account \<Rightarrow> Account \<Rightarrow> bool" where
  "echoes_write deps g n p acct \<longleftrightarrow>
     (case Sku acct of
        None \<Rightarrow> True
      | Some k \<Rightarrow> map_option SkuName (Sku p) = Some (SkuName k))
   \<and> (case ID acct of
        None \<Rightarrow> True
      | Some i \<Rightarrow> AccountID deps i = Inr \<lparr>ResourceGroup = g, Name = n\<rparr>)"

text \<open>
  In a list of calls, every error-free fetch that comes after an error-free
  create-or-update call and asks for the resource group and name written to returns
  an account that echoes that write.
\<close>

fun fetches_echo :: "'w deps \<Rightarrow> event list \<Rightarrow> bool" where
  "fetches_echo deps [] = True"
| "fetches_echo deps (EvCreateOrUpdate g n p a None # evs) =
     (list_all (\<lambda>ev. case ev of
                        EvGet g' n' acct None \<Rightarrow> g' = g \<and> n' = n \<longrightarrow> echoes_write deps g n p acct
                      | _ \<Rightarrow> True) evs
      \<and> fetches_echo deps evs)"
| "fetches_echo deps (ev # evs) = fetches_echo deps evs"

section \<open>The shape of a run\<close>

text \<open>
  Each handler is a chain of early returns. The rules below list the exits of a run,
  each with the calls it made, so that a property of a handler is proved exit by exit.
\<close>

lemma new_events_append:
  assumes "history r' = history r @ evs"
  shows "new_events r r' = evs"
  unfolding new_events_def assms by simp

lemma d_Get_string_SetId [simp]: "d_Get_string (d_SetId d i) k = d_Get_string d k"
  by (simp add: d_Get_string_def d_SetId_def)

lemma Id_SetId [simp]: "Id (d_SetId d i) = i"
  by (simp add: d_SetId_def)

lemma read_cases:
  assumes "resourceMapsAccountRead deps d r = (res, d', r')"
  obtains
    (malformed) e where
      "AccountID deps (Id d) = Inl e" "res = Some (ExternalError e)" "d' = d" "r' = r"
  | (not_found) aid resp e where
      "AccountID deps (Id d) = Inr aid"
      "history r' = history r @ [EvGet (ResourceGroup aid) (Name aid) resp (Some e)]"
      "res = None" "d' = d\<lparr>Id := []\<rparr>"
  | (fetch_failed) aid resp e where
      "AccountID deps (Id d) = Inr aid"
      "history r' = history r @ [EvGet (ResourceGroup aid) (Name aid) resp (Some e)]"
      "res = Some (ErrorMakingReadRequest (Name aid) (ResourceGroup aid) e)" "d' = d"
  | (keys_failed) aid resp keys e where
      "AccountID deps (Id d) = Inr aid"
      "history r' = history r @ [EvGet (ResourceGroup aid) (Name aid) resp None,
                                 EvListKeys (ResourceGroup aid) (Name aid) keys (Some e)]"
      "res = Some (ErrorMakingReadAccessKeysRequest (Name aid) (ResourceGroup aid) e)"
      "Id d' = Id d"
  | (found) aid resp keys where
      "AccountID deps (Id d) = Inr aid"
      "history r' = history r @ [EvGet (ResourceGroup aid) (Name aid) resp None,
                                 EvListKeys (ResourceGroup aid) (Name aid) keys None]"
      "res = None" "Id d' = Id d"
      "d_Get_string d' ''name'' = Name aid"
      "d_Get_string d' ''resource_group_name'' = ResourceGroup aid"
      "d_Get_string d' ''sku_name'' =
         (case Sku resp of Some k \<Rightarrow> SkuName k | None \<Rightarrow> d_Get_string d ''sku_name'')"
proof (cases "AccountID deps (Id d)")
  case (Inl e)
  with assms have "res = Some (ExternalError e)" "d' = d" "r' = r"
    by (simp_all add: resourceMapsAccountRead_def)
  with Inl show ?thesis
    by (rule malformed)
next
  case (Inr aid)
  obtain resp err w where g: "Get deps (world r) (ResourceGroup aid) (Name aid) = ((resp, err), w)"
    by (metis prod.exhaust)
  show ?thesis
  proof (cases err)
    case (Some e)
    with assms Inr g not_found [of aid resp e] fetch_failed [of aid resp e] show ?thesis
      by (auto simp: resourceMapsAccountRead_def client_Get_def d_SetId_def split: if_splits)
  next
    case None
    obtain keys err2 w2 where
      k: "ListKeys deps w (ResourceGroup aid) (Name aid) = ((keys, err2), w2)"
      by (metis prod.exhaust)
    show ?thesis
    proof (cases err2)
      case (Some e)
      with assms Inr g k None keys_failed [of aid resp keys e] show ?thesis
        by (auto simp: resourceMapsAccountRead_def client_Get_def client_ListKeys_def
            d_Set_def Let_def split: option.splits)
    next
      case n2: None
      with assms Inr g k None found [of aid resp keys] show ?thesis
        by (auto simp: resourceMapsAccountRead_def client_Get_def client_ListKeys_def
            FlattenAndSet_def d_Set_def d_Get_string_def Let_def split: option.splits)
    qed
  qed
qed

lemma read_events:
  assumes "resourceMapsAccountRead deps d r = (res, d', r')"
  shows "\<exists>evs. history r' = history r @ evs
           \<and> (\<forall>g n p a e. EvCreateOrUpdate g n p a e \<notin> set evs)"
  using assms by (cases rule: read_cases) auto

lemma read_errors:
  assumes "resourceMapsAccountRead deps d r = (Some e, d', r')"
  shows "\<not> raised_before_SetId e"
  using assms by (cases rule: read_cases) auto

lemma read_found:
  assumes run: "resourceMapsAccountRead deps d r = (None, d', r')"
      and found: "Id d' \<noteq> []"
  obtains aid resp keys where
      "AccountID deps (Id d) = Inr aid"
      "history r' = history r @ [EvGet (ResourceGroup aid) (Name aid) resp None,
                                 EvListKeys (ResourceGroup aid) (Name aid) keys None]"
      "Id d' = Id d"
      "d_Get_string d' ''name'' = Name aid"
      "d_Get_string d' ''resource_group_name'' = ResourceGroup aid"
      "d_Get_string d' ''sku_name'' =
         (case Sku resp of Some k \<Rightarrow> SkuName k | None \<Rightarrow> d_Get_string d ''sku_name'')"
  using run
proof (cases rule: read_cases)
  case (not_found aid resp e)
  with found show ?thesis by simp
next
  case (found aid resp keys)
  then show ?thesis
    by (intro that [of aid resp keys])
qed simp_all

lemma write_cases:
  assumes "createUpdate_write deps d name g t sku r = (res, d', r')"
  obtains
    (write_failed) a e where
      "history r' = history r @ [EvCreateOrUpdate g name (parameters deps sku t) a (Some e)]"
      "res = Some (ErrorCreatingUpdating name g e)" "d' = d"
  | (fetch_failed) a read e where
      "history r' = history r @ [EvCreateOrUpdate g name (parameters deps sku t) a None,
                                 EvGet g name read (Some e)]"
      "res = Some (ErrorRetrieving name g e)" "d' = d"
  | (no_id) a read where
      "history r' = history r @ [EvCreateOrUpdate g name (parameters deps sku t) a None,
                                 EvGet g name read None]"
      "ID read = None" "res = Some (CannotReadID name g)" "d' = d"
  | (read) a read i r2 where
      "history r2 = history r @ [EvCreateOrUpdate g name (parameters deps sku t) a None,
                                 EvGet g name read None]"
      "ID read = Some i"
      "resourceMapsAccountRead deps (d_SetId d i) r2 = (res, d', r')"
proof -
  obtain a err w where c: "CreateOrUpdate deps (world r) g name (parameters deps sku t) = ((a, err), w)"
    by (metis prod.exhaust)
  obtain read err2 w2 where f: "Get deps w g name = ((read, err2), w2)"
    by (metis prod.exhaust)
  show ?thesis
  proof (cases err)
    case (Some e)
    with assms c write_failed [of a e] show ?thesis
      by (auto simp: createUpdate_write_def client_CreateOrUpdate_def)
  next
    case None
    show ?thesis
    proof (cases err2)
      case (Some e)
      with assms c f None fetch_failed [of a read e] show ?thesis
        by (auto simp: createUpdate_write_def client_CreateOrUpdate_def client_Get_def)
    next
      case n2: None
      show ?thesis
      proof (cases "ID read")
        case None
        with assms c f \<open>err = None\<close> n2 no_id [of a read] show ?thesis
          by (auto simp: createUpdate_write_def client_CreateOrUpdate_def client_Get_def)
      next
        case (Some i)
        with assms c f \<open>err = None\<close> n2
          read [of "\<lparr>world = w2, history = history r @
                     [EvCreateOrUpdate g name (parameters deps sku t) a None,
                      EvGet g name read None]\<rparr>" a read i]
        show ?thesis
          by (auto simp: createUpdate_write_def client_CreateOrUpdate_def client_Get_def)
      qed
    qed
  qed
qed

lemma write_first_event:
  assumes "createUpdate_write deps d name g t sku r = (res, d', r')"
  shows "\<exists>a e post. history r' = history r @ EvCreateOrUpdate g name (parameters deps sku t) a e # post"
  using assms
proof (cases rule: write_cases)
  case (read a rd i r2)
  from read_events [OF read(3)] obtain post where "history r' = history r2 @ post"
    by blast
  with read(1) show ?thesis by simp
qed auto

lemma write_not_already_exists:
  assumes "createUpdate_write deps d name g t sku r = (res, d', r')"
  shows "res \<noteq> Some (ImportAsExistsError ty i)"
  using assms
proof (cases rule: write_cases)
  case (read a rd j r2)
  from read(3) show ?thesis
    by (cases rule: read_cases) auto
qed auto

lemma createUpdate_cases:
  assumes "resourceMapsAccountCreateUpdate deps d r = (res, d', r')"
  obtains
    (probe_failed) existing e where
      "IsNewResource d"
      "history r' = history r @ [EvGet (d_Get_string d ''resource_group_name'')
                                       (d_Get_string d ''name'') existing (Some e)]"
      "\<not> ResponseWasNotFound deps (Response existing)"
      "res = Some (ErrorCheckingPresence (d_Get_string d ''name'')
                     (d_Get_string d ''resource_group_name'') e)"
      "d' = d"
  | (already_exists) existing err i where
      "IsNewResource d"
      "history r' = history r @ [EvGet (d_Get_string d ''resource_group_name'')
                                       (d_Get_string d ''name'') existing err]"
      "err = None \<or> ResponseWasNotFound deps (Response existing)"
      "ID existing = Some i" "i \<noteq> []"
      "res = Some (ImportAsExistsError ''azurerm_maps_account'' i)"
      "d' = d"
  | (update) "\<not> IsNewResource d"
      "createUpdate_write deps d (d_Get_string d ''name'') (d_Get_string d ''resource_group_name'')
         (d_Get_tags d ''tags'') (d_Get_string d ''sku_name'') r = (res, d', r')"
  | (create) existing err r0 where
      "IsNewResource d"
      "history r0 = history r @ [EvGet (d_Get_string d ''resource_group_name'')
                                       (d_Get_string d ''name'') existing err]"
      "err = None \<or> ResponseWasNotFound deps (Response existing)"
      "ID existing = None \<or> ID existing = Some []"
      "createUpdate_write deps d (d_Get_string d ''name'') (d_Get_string d ''resource_group_name'')
         (d_Get_tags d ''tags'') (d_Get_string d ''sku_name'') r0 = (res, d', r')"
proof (cases "IsNewResource d")
  case False
  with assms show ?thesis
    by (intro update) (simp_all add: resourceMapsAccountCreateUpdate_def Let_def)
next
  case True
  let ?g = "d_Get_string d ''resource_group_name''" and ?n = "d_Get_string d ''name''"
  obtain existing err w where g: "Get deps (world r) ?g ?n = ((existing, err), w)"
    by (metis prod.exhaust)
  let ?r0 = "\<lparr>world = w, history = history r @ [EvGet ?g ?n existing err]\<rparr>"
  define failed where "failed \<longleftrightarrow> err \<noteq> None \<and> \<not> ResponseWasNotFound deps (Response existing)"
  define present where "present \<longleftrightarrow> ID existing \<noteq> None \<and> the (ID existing) \<noteq> []"
  consider (a) failed | (b) "\<not> failed" present | (c) "\<not> failed" "\<not> present"
    by blast
  then show ?thesis
  proof cases
    case a
    then have a: "err \<noteq> None \<and> \<not> ResponseWasNotFound deps (Response existing)"
      by (simp add: failed_def)
    then obtain e where e: "err = Some e" by auto
    from assms True g a e have "res = Some (ErrorCheckingPresence ?n ?g e)" "d' = d" "r' = ?r0"
      by (auto simp: resourceMapsAccountCreateUpdate_def client_Get_def Let_def)
    with True a e show ?thesis
      by (intro probe_failed [of existing e]) simp_all
  next
    case b
    then have b: "err = None \<or> ResponseWasNotFound deps (Response existing)"
          "ID existing \<noteq> None \<and> the (ID existing) \<noteq> []"
      by (auto simp: failed_def present_def)
    then obtain i where i: "ID existing = Some i" "i \<noteq> []" by auto
    from assms True g b i have "res = Some (ImportAsExistsError ''azurerm_maps_account'' i)"
        "d' = d" "r' = ?r0"
      by (auto simp: resourceMapsAccountCreateUpdate_def client_Get_def Let_def)
    with True b i show ?thesis
      by (intro already_exists [of existing err i]) simp_all
  next
    case c
    then have c: "err = None \<or> ResponseWasNotFound deps (Response existing)"
          "\<not> (ID existing \<noteq> None \<and> the (ID existing) \<noteq> [])"
      by (auto simp: failed_def present_def)
    from assms True g c have
      "createUpdate_write deps d ?n ?g (d_Get_tags d ''tags'') (d_Get_string d ''sku_name'') ?r0
         = (res, d', r')"
      by (auto simp: resourceMapsAccountCreateUpdate_def client_Get_def Let_def)
    moreover from c(2) have "ID existing = None \<or> ID existing = Some []"
      by (cases "ID existing") auto
    ultimately show ?thesis
      using True c(1) by (intro create [of ?r0 existing err]) simp_all
  qed
qed

lemma createUpdate_run:
  assumes "resourceMapsAccountCreateUpdate deps d r = (res, d', r')"
  defines "g \<equiv> d_Get_string d ''resource_group_name''"
      and "n \<equiv> d_Get_string d ''name''"
      and "p \<equiv> parameters deps (d_Get_string d ''sku_name'') (d_Get_tags d ''tags'')"
  obtains
    (probe_failed) existing e where
      "history r' = history r @ [EvGet g n existing (Some e)]"
      "res = Some (ErrorCheckingPresence n g e)" "d' = d"
  | (already_exists) existing err i where
      "history r' = history r @ [EvGet g n existing err]"
      "res = Some (ImportAsExistsError ''azurerm_maps_account'' i)" "d' = d"
  | (write_failed) pre a e where
      "\<forall>g n p a e. EvCreateOrUpdate g n p a e \<notin> set pre"
      "history r' = history r @ pre @ [EvCreateOrUpdate g n p a (Some e)]"
      "res = Some (ErrorCreatingUpdating n g e)" "d' = d"
  | (fetch_failed) pre a read e where
      "\<forall>g n p a e. EvCreateOrUpdate g n p a e \<notin> set pre"
      "history r' = history r @ pre @ [EvCreateOrUpdate g n p a None, EvGet g n read (Some e)]"
      "res = Some (ErrorRetrieving n g e)" "d' = d"
  | (no_id) pre a read where
      "\<forall>g n p a e. EvCreateOrUpdate g n p a e \<notin> set pre"
      "history r' = history r @ pre @ [EvCreateOrUpdate g n p a None, EvGet g n read None]"
      "ID read = None" "res = Some (CannotReadID n g)" "d' = d"
  | (read) pre a read i r2 where
      "\<forall>g n p a e. EvCreateOrUpdate g n p a e \<notin> set pre"
      "history r2 = history r @ pre @ [EvCreateOrUpdate g n p a None, EvGet g n read None]"
      "ID read = Some i"
      "resourceMapsAccountRead deps (d_SetId d i) r2 = (res, d', r')"
proof -
  note shape = that
  have w: thesis
    if pre: "history r0 = history r @ pre"
      and nopre: "\<forall>g n p a e. EvCreateOrUpdate g n p a e \<notin> set pre"
      and wr: "createUpdate_write deps d n g (d_Get_tags d ''tags'')
                 (d_Get_string d ''sku_name'') r0 = (res, d', r')"
    for r0 pre
    using wr
  proof (cases rule: write_cases)
    case (write_failed a e)
    with pre nopre show ?thesis
      by (intro shape(3) [of pre a e]) (simp_all add: p_def)
  next
    case (fetch_failed a rd e)
    with pre nopre show ?thesis
      by (intro shape(4) [of pre a rd e]) (simp_all add: p_def)
  next
    case (no_id a rd)
    with pre nopre show ?thesis
      by (intro shape(5) [of pre a rd]) (simp_all add: p_def)
  next
    case (read a rd i r2)
    with pre nopre show ?thesis
      by (intro shape(6) [of pre r2 a rd i]) (simp_all add: p_def)
  qed
  from assms(1) show ?thesis
  proof (cases rule: createUpdate_cases)
    case (probe_failed existing e)
    then show ?thesis
      by (intro shape(1) [of existing e]) (simp_all add: g_def n_def)
  next
    case (already_exists existing err i)
    then show ?thesis
      by (intro shape(2) [of existing err i]) (simp_all add: g_def n_def)
  next
    case update
    show ?thesis
      by (rule w [of r "[]"]) (simp_all add: update g_def n_def)
  next
    case (create existing err r0)
    show ?thesis
      by (rule w [of r0 "[EvGet g n existing err]"]) (simp_all add: create g_def n_def)
  qed
qed

lemma fetches_echo_suffix:
  "fetches_echo deps (xs @ ys) \<Longrightarrow> fetches_echo deps ys"
  by (induction deps xs rule: fetches_echo.induct) auto

lemma fetches_echo_after_write:
  assumes "fetches_echo deps (pre @ EvCreateOrUpdate g n p a None # post)"
      and "EvGet g n acct None \<in> set post"
  shows "echoes_write deps g n p acct"
proof -
  from assms(1) have "fetches_echo deps (EvCreateOrUpdate g n p a None # post)"
    by (rule fetches_echo_suffix)
  with assms(2) show ?thesis
    by (auto simp: list_all_iff)
qed

section \<open>Runs on the example\<close>

lemmas store_defs =
  store_deps_def store_Get_def store_CreateOrUpdate_def store_Delete_def store_ListKeys_def
  store_AccountID_def blank_account_def

lemmas handler_defs =
  resourceMapsAccountCreateUpdate_def createUpdate_write_def resourceMapsAccountRead_def
  resourceMapsAccountDelete_def client_Get_def client_CreateOrUpdate_def client_Delete_def
  client_ListKeys_def FlattenAndSet_def parameters_def d_Get_string_def d_Get_tags_def
  d_Set_def d_SetId_def Let_def

lemma mymaps_inputs:
  "d_Get_string mymaps ''name'' = ''mymaps''"
  "d_Get_string mymaps ''resource_group_name'' = ''rg1''"
  "d_Get_string mymaps ''sku_name'' = ''S0''"
  "d_Get_tags mymaps ''tags'' = Map.empty"
  by (simp_all add: d_Get_string_def d_Get_tags_def mymaps_def)

lemma store_create_run:
  "resourceMapsAccountCreateUpdate store_deps mymaps fresh = (None, created, after_create)"
  by (simp add: handler_defs store_defs mymaps_def fresh_def created_def after_create_def
      stored_def payload_def the_keys_def not_found_account_def)

lemma store_read_run:
  "resourceMapsAccountRead store_deps created after_create = (None, created, after_read)"
  by (simp add: handler_defs store_defs mymaps_def fresh_def created_def after_create_def
      after_read_def stored_def payload_def the_keys_def not_found_account_def)

lemma bare_read_run:
  "resourceMapsAccountRead store_deps gone taken =
     (None,
      gone\<lparr>attrs := (attrs gone)
               (''name'' \<mapsto> VString ''mymaps'',
                ''resource_group_name'' \<mapsto> VString ''rg1'',
                ''primary_access_key'' \<mapsto> VStringPtr (Some ''key-1''),
                ''secondary_access_key'' \<mapsto> VStringPtr (Some ''key-2''),
                ''tags'' \<mapsto> VTags Map.empty)\<rparr>,
      taken\<lparr>history := [EvGet ''rg1'' ''mymaps'' bare_account None,
                           EvListKeys ''rg1'' ''mymaps'' the_keys None]\<rparr>)"
  by (simp add: handler_defs store_defs gone_def mymaps_def taken_def bare_account_def
      the_keys_def)

lemma reject_run:
  "resourceMapsAccountCreateUpdate reject_deps mymaps fresh =
     (Some (ErrorCreatingUpdating ''mymaps'' ''rg1'' ''server error''), mymaps,
      \<lparr>world = [],
       history = [EvGet ''rg1'' ''mymaps'' not_found_account (Some ''not found''),
                  EvCreateOrUpdate ''rg1'' ''mymaps'' payload
                    (blank_account\<lparr>Response := Some 500\<rparr>) (Some ''server error'')]\<rparr>)"
  by (simp add: handler_defs store_defs reject_deps_def mymaps_def fresh_def payload_def
      not_found_account_def)

lemma no_id_run:
  "resourceMapsAccountCreateUpdate no_id_deps mymaps fresh =
     (Some (CannotReadID ''mymaps'' ''rg1''), mymaps,
      \<lparr>world = [((''rg1'', ''mymaps''), payload)],
       history = [EvGet ''rg1'' ''mymaps'' not_found_account (Some ''not found''),
                  EvCreateOrUpdate ''rg1'' ''mymaps'' payload payload None,
                  EvGet ''rg1'' ''mymaps'' (payload\<lparr>Response := Some 200\<rparr>) None]\<rparr>)"
  by (simp add: handler_defs store_defs no_id_deps_def mymaps_def fresh_def payload_def
      not_found_account_def)

section \<open>Properties of the handlers\<close>

subsection \<open>A malformed identifier stops Read and Delete\<close>

text \<open>
  C6. When the stored identifier does not parse, Read and Delete both return the
  parse error at once: the resource data and the remote state, with its list of
  calls, are what they were, so no remote call was made.
\<close>

theorem malformed_identifier_no_remote_call:
  assumes "AccountID deps (Id d) = Inl e"
  shows "resourceMapsAccountRead deps d r = (Some (ExternalError e), d, r)
       \<and> resourceMapsAccountDelete deps d r = (Some (ExternalError e), d, r)"
  using assms by (simp add: resourceMapsAccountRead_def resourceMapsAccountDelete_def)

theorem malformed_identifier_no_remote_call_witness:
  "AccountID store_deps (Id mymaps) = Inl ''malformed identifier''
   \<and> resourceMapsAccountRead store_deps mymaps fresh
       = (Some (ExternalError ''malformed identifier''), mymaps, fresh)
   \<and> resourceMapsAccountDelete store_deps mymaps fresh
       = (Some (ExternalError ''malformed identifier''), mymaps, fresh)"
proof -
  have h: "AccountID store_deps (Id mymaps) = Inl ''malformed identifier''"
    by (simp add: store_deps_def store_AccountID_def mymaps_def)
  show ?thesis
    using h malformed_identifier_no_remote_call [OF h, of fresh] by simp
qed

subsection \<open>Read when the fetch fails\<close>

text \<open>
  C2. For a well-formed identifier whose fetch returns an error: when the response was
  "not found", Read sets the identifier to the empty string and returns no error;
  otherwise it returns the fetch error, wrapped with the name and the resource group,
  and leaves the resource data as it was. Either way the fetch is the only call.
\<close>

theorem read_not_found_clears_identifier:
  assumes "AccountID deps (Id d) = Inr aid"
      and "Get deps (world r) (ResourceGroup aid) (Name aid) = ((resp, Some e), w)"
  shows "resourceMapsAccountRead deps d r =
           (if ResponseWasNotFound deps (Response resp)
            then (None, d\<lparr>Id := []\<rparr>,
                  \<lparr>world = w,
                   history = history r @ [EvGet (ResourceGroup aid) (Name aid) resp (Some e)]\<rparr>)
            else (Some (ErrorMakingReadRequest (Name aid) (ResourceGroup aid) e), d,
                  \<lparr>world = w,
                   history = history r @ [EvGet (ResourceGroup aid) (Name aid) resp (Some e)]\<rparr>))"
  using assms by (simp add: resourceMapsAccountRead_def client_Get_def d_SetId_def)

theorem read_not_found_clears_identifier_witness:
  "AccountID store_deps (Id gone) = Inr \<lparr>ResourceGroup = ''rg1'', Name = ''mymaps''\<rparr>
   \<and> Get store_deps (world fresh) ''rg1'' ''mymaps'' = ((not_found_account, Some ''not found''), [])
   \<and> resourceMapsAccountRead store_deps gone fresh
       = (None, gone\<lparr>Id := []\<rparr>,
          \<lparr>world = [],
           history = [EvGet ''rg1'' ''mymaps'' not_found_account (Some ''not found'')]\<rparr>)
   \<and> Get broken_deps (world fresh) ''rg1'' ''mymaps''
       = ((blank_account\<lparr>Response := Some 500\<rparr>, Some ''server error''), [])
   \<and> resourceMapsAccountRead broken_deps gone fresh
       = (Some (ErrorMakingReadRequest ''mymaps'' ''rg1'' ''server error''), gone,
          \<lparr>world = [],
           history = [EvGet ''rg1'' ''mymaps'' (blank_account\<lparr>Response := Some 500\<rparr>)
                        (Some ''server error'')]\<rparr>)"
proof -
  let ?aid = "\<lparr>ResourceGroup = ''rg1'', Name = ''mymaps''\<rparr>"
  have a: "AccountID store_deps (Id gone) = Inr ?aid"
    by (simp add: store_defs gone_def)
  have g: "Get store_deps (world fresh) (ResourceGroup ?aid) (Name ?aid)
             = ((not_found_account, Some ''not found''), [])"
    by (simp add: store_defs fresh_def not_found_account_def)
  have nf: "ResponseWasNotFound store_deps (Response not_found_account)"
    by (simp add: store_defs not_found_account_def)
  have a': "AccountID broken_deps (Id gone) = Inr ?aid"
    by (simp add: broken_deps_def store_defs gone_def)
  have g': "Get broken_deps (world fresh) (ResourceGroup ?aid) (Name ?aid)
              = ((blank_account\<lparr>Response := Some 500\<rparr>, Some ''server error''), [])"
    by (simp add: broken_deps_def fresh_def)
  have nf': "\<not> ResponseWasNotFound broken_deps
                 (Response (blank_account\<lparr>Response := Some 500\<rparr>))"
    by (simp add: broken_deps_def store_deps_def)
  show ?thesis
    using a g nf g' nf' read_not_found_clears_identifier [OF a g]
      read_not_found_clears_identifier [OF a' g']
    by (simp add: fresh_def)
qed

subsection \<open>Create refuses an account that is already there\<close>

text \<open>
  C1. On a new resource, when the probe returns no error and an account whose
  identifier is present and not empty, the handler returns the "already exists" error
  for that identifier, leaves the resource data as it was, and the probe is the only
  call it made: the create-or-update operation is not called.
\<close>

theorem create_refuses_existing:
  assumes "IsNewResource d"
      and "Get deps (world r) (d_Get_string d ''resource_group_name'') (d_Get_string d ''name'')
             = ((existing, None), w)"
      and "ID existing = Some i"
      and "i \<noteq> []"
  shows "\<exists>r'. resourceMapsAccountCreateUpdate deps d r =
                (Some (ImportAsExistsError ''azurerm_maps_account'' i), d, r')
            \<and> world r' = w
            \<and> new_events r r' = [EvGet (d_Get_string d ''resource_group_name'')
                                        (d_Get_string d ''name'') existing None]"
  using assms
  by (simp add: resourceMapsAccountCreateUpdate_def client_Get_def new_events_def)

theorem create_refuses_existing_witness:
  "IsNewResource mymaps
   \<and> Get store_deps (world taken) ''rg1'' ''mymaps'' = ((bare_account, None), world taken)
   \<and> ID bare_account = Some ''rg1/mymaps''
   \<and> (\<exists>r'. resourceMapsAccountCreateUpdate store_deps mymaps taken
              = (Some (ImportAsExistsError ''azurerm_maps_account'' ''rg1/mymaps''), mymaps, r')
          \<and> world r' = world taken
          \<and> new_events taken r' = [EvGet ''rg1'' ''mymaps'' bare_account None])"
proof -
  have n: "IsNewResource mymaps"
    by (simp add: mymaps_def)
  have g: "Get store_deps (world taken) (d_Get_string mymaps ''resource_group_name'')
             (d_Get_string mymaps ''name'') = ((bare_account, None), world taken)"
    by (simp add: mymaps_inputs store_defs taken_def bare_account_def)
  have i: "ID bare_account = Some ''rg1/mymaps''" "''rg1/mymaps'' \<noteq> []"
    by (simp_all add: bare_account_def)
  show ?thesis
    using n g i create_refuses_existing [OF n g i] by (simp add: mymaps_inputs)
qed

text \<open>
  C9. On a new resource whose probe is not an immediate failure (it returned no error,
  or its response was "not found", so that line 103 is reached), the handler returns
  the "already exists" error exactly when the probed account carries an identifier
  that is present and not empty. With a \<^verbatim>\<open>nil\<close> or empty identifier the run goes on
  to the write: the next call after the probe is the create-or-update call with the
  payload.
\<close>

theorem probe_identifier_decides:
  assumes new: "IsNewResource d"
      and probe: "Get deps (world r) (d_Get_string d ''resource_group_name'')
                    (d_Get_string d ''name'') = ((existing, err), w)"
      and pass: "err = None \<or> ResponseWasNotFound deps (Response existing)"
      and run: "resourceMapsAccountCreateUpdate deps d r = (res, d', r')"
  shows "((\<exists>ty i. res = Some (ImportAsExistsError ty i))
            \<longleftrightarrow> (\<exists>i. ID existing = Some i \<and> i \<noteq> []))
       \<and> (ID existing = None \<or> ID existing = Some [] \<longrightarrow>
            (\<exists>a e post.
               new_events r r' =
                 EvGet (d_Get_string d ''resource_group_name'') (d_Get_string d ''name'')
                   existing err
                 # EvCreateOrUpdate (d_Get_string d ''resource_group_name'')
                     (d_Get_string d ''name'')
                     (parameters deps (d_Get_string d ''sku_name'') (d_Get_tags d ''tags''))
                     a e
                 # post))"
proof (cases "\<exists>i. ID existing = Some i \<and> i \<noteq> []")
  case True
  then obtain i where i: "ID existing = Some i" "i \<noteq> []"
    by blast
  with new probe pass run have "res = Some (ImportAsExistsError ''azurerm_maps_account'' i)"
    by (auto simp: resourceMapsAccountCreateUpdate_def client_Get_def Let_def)
  with i show ?thesis by auto
next
  case False
  let ?g = "d_Get_string d ''resource_group_name''" and ?n = "d_Get_string d ''name''"
  let ?r0 = "\<lparr>world = w, history = history r @ [EvGet ?g ?n existing err]\<rparr>"
  from False have empty: "ID existing = None \<or> ID existing = Some []"
    by (cases "ID existing") auto
  with new probe pass run have wr:
    "createUpdate_write deps d ?n ?g (d_Get_tags d ''tags'') (d_Get_string d ''sku_name'') ?r0
       = (res, d', r')"
    by (auto simp: resourceMapsAccountCreateUpdate_def client_Get_def Let_def)
  from write_first_event [OF wr] obtain a e post where
    "history r' = history r @ EvGet ?g ?n existing err
       # EvCreateOrUpdate ?g ?n
           (parameters deps (d_Get_string d ''sku_name'') (d_Get_tags d ''tags'')) a e # post"
    by auto
  then have "new_events r r' = EvGet ?g ?n existing err
       # EvCreateOrUpdate ?g ?n
           (parameters deps (d_Get_string d ''sku_name'') (d_Get_tags d ''tags'')) a e # post"
    by (rule new_events_append)
  with False write_not_already_exists [OF wr] show ?thesis
    by blast
qed

theorem probe_identifier_decides_witness:
  "IsNewResource mymaps
   \<and> Get store_deps (world fresh) ''rg1'' ''mymaps'' = ((not_found_account, Some ''not found''), [])
   \<and> ResponseWasNotFound store_deps (Response not_found_account)
   \<and> ID not_found_account = None
   \<and> resourceMapsAccountCreateUpdate store_deps mymaps fresh = (None, created, after_create)
   \<and> (\<exists>a e post.
         new_events fresh after_create =
           EvGet ''rg1'' ''mymaps'' not_found_account (Some ''not found'')
           # EvCreateOrUpdate ''rg1'' ''mymaps'' payload a e # post)"
proof -
  have n: "IsNewResource mymaps"
    by (simp add: mymaps_def)
  have g: "Get store_deps (world fresh) (d_Get_string mymaps ''resource_group_name'')
             (d_Get_string mymaps ''name'') = ((not_found_account, Some ''not found''), [])"
    by (simp add: store_defs fresh_def not_found_account_def mymaps_inputs)
  have nf: "Some ''not found'' = None \<or> ResponseWasNotFound store_deps (Response not_found_account)"
    by (simp add: store_defs not_found_account_def)
  have nil: "ID not_found_account = None"
    by (simp add: not_found_account_def blank_account_def)
  have p: "parameters store_deps ''S0'' Map.empty = payload"
    by (simp add: parameters_def payload_def store_defs)
  show ?thesis
    using probe_identifier_decides [OF n g nf store_create_run] n g nf nil store_create_run
    by (simp add: mymaps_inputs p)
qed

subsection \<open>The write\<close>

text \<open>
  C5. Every create-or-update call that a run of the handler makes is addressed to the
  resource group and name of the input and carries a payload whose location is
  \<^verbatim>\<open>"global"\<close>, whose sku name is the \<^verbatim>\<open>sku_name\<close> input and whose tags are the
  expanded \<^verbatim>\<open>tags\<close> input; when the call returns an error, the handler returns it,
  wrapped with the name and the resource group, and leaves the resource data as it
  was.
\<close>

theorem createUpdate_payload:
  assumes run: "resourceMapsAccountCreateUpdate deps d r = (res, d', r')"
      and ev: "EvCreateOrUpdate g n p a e \<in> set (new_events r r')"
  shows "g = d_Get_string d ''resource_group_name'' \<and> n = d_Get_string d ''name''
       \<and> Location p = Some ''global''
       \<and> Sku p = Some \<lparr>SkuName = d_Get_string d ''sku_name''\<rparr>
       \<and> Tags p = Expand deps (d_Get_tags d ''tags'')
       \<and> (\<forall>x. e = Some x \<longrightarrow> res = Some (ErrorCreatingUpdating n g x) \<and> d' = d)"
proof -
  let ?g = "d_Get_string d ''resource_group_name''" and ?n = "d_Get_string d ''name''"
  let ?p = "parameters deps (d_Get_string d ''sku_name'') (d_Get_tags d ''tags'')"
  have w: "g = ?g \<and> n = ?n \<and> p = ?p
           \<and> (\<forall>x. e = Some x \<longrightarrow> res = Some (ErrorCreatingUpdating n g x) \<and> d' = d)"
    if pre: "history r0 = history r @ pre"
      and nopre: "\<forall>g n p a e. EvCreateOrUpdate g n p a e \<notin> set pre"
      and wr: "createUpdate_write deps d ?n ?g (d_Get_tags d ''tags'')
                 (d_Get_string d ''sku_name'') r0 = (res, d', r')"
    for r0 pre
    using wr
  proof (cases rule: write_cases)
    case (write_failed a' e')
    with pre have "new_events r r' = pre @ [EvCreateOrUpdate ?g ?n ?p a' (Some e')]"
      by (intro new_events_append) simp
    with ev nopre write_failed show ?thesis by auto
  next
    case (fetch_failed a' read e')
    with pre have "new_events r r' = pre @ [EvCreateOrUpdate ?g ?n ?p a' None,
                                            EvGet ?g ?n read (Some e')]"
      by (intro new_events_append) simp
    with ev nopre fetch_failed show ?thesis by auto
  next
    case (no_id a' read)
    with pre have "new_events r r' = pre @ [EvCreateOrUpdate ?g ?n ?p a' None,
                                            EvGet ?g ?n read None]"
      by (intro new_events_append) simp
    with ev nopre no_id show ?thesis by auto
  next
    case (read a' rd i r2)
    from read_events [OF read(3)] obtain evs where
      evs: "history r' = history r2 @ evs" "\<forall>g n p a e. EvCreateOrUpdate g n p a e \<notin> set evs"
      by blast
    with pre read have "new_events r r' = pre @ [EvCreateOrUpdate ?g ?n ?p a' None,
                                                EvGet ?g ?n rd None] @ evs"
      by (intro new_events_append) simp
    with ev nopre evs read show ?thesis by auto
  qed
  have "g = ?g \<and> n = ?n \<and> p = ?p
           \<and> (\<forall>x. e = Some x \<longrightarrow> res = Some (ErrorCreatingUpdating n g x) \<and> d' = d)"
    using run
  proof (cases rule: createUpdate_cases)
    case (probe_failed existing e')
    from probe_failed(2) have "new_events r r' = [EvGet ?g ?n existing (Some e')]"
      by (rule new_events_append)
    with ev show ?thesis by simp
  next
    case (already_exists existing err i)
    from already_exists(2) have "new_events r r' = [EvGet ?g ?n existing err]"
      by (rule new_events_append)
    with ev show ?thesis by simp
  next
    case update
    show ?thesis
      by (rule w [of r "[]"]) (simp_all add: update)
  next
    case (create existing err r0)
    show ?thesis
      by (rule w [of r0 "[EvGet ?g ?n existing err]"]) (simp_all add: create)
  qed
  then show ?thesis
    by (simp add: parameters_def)
qed

theorem createUpdate_payload_witness:
  "resourceMapsAccountCreateUpdate reject_deps mymaps fresh =
     (Some (ErrorCreatingUpdating ''mymaps'' ''rg1'' ''server error''), mymaps,
      \<lparr>world = [],
       history = [EvGet ''rg1'' ''mymaps'' not_found_account (Some ''not found''),
                  EvCreateOrUpdate ''rg1'' ''mymaps'' payload
                    (blank_account\<lparr>Response := Some 500\<rparr>) (Some ''server error'')]\<rparr>)
   \<and> Location payload = Some ''global''
   \<and> Sku payload = Some \<lparr>SkuName = ''S0''\<rparr>
   \<and> Tags payload = Expand reject_deps Map.empty"
proof -
  let ?r = "\<lparr>world = [],
       history = [EvGet ''rg1'' ''mymaps'' not_found_account (Some ''not found''),
                  EvCreateOrUpdate ''rg1'' ''mymaps'' payload
                    (blank_account\<lparr>Response := Some 500\<rparr>) (Some ''server error'')]\<rparr>"
  have ev: "EvCreateOrUpdate ''rg1'' ''mymaps'' payload (blank_account\<lparr>Response := Some 500\<rparr>)
              (Some ''server error'') \<in> set (new_events fresh ?r)"
    by (simp add: new_events_def fresh_def)
  show ?thesis
    using createUpdate_payload [OF reject_run ev] reject_run
    by (simp add: mymaps_inputs)
qed

text \<open>
  C4. When a run's create-or-update call returns no error, the next call is a fetch of
  the same resource group and name. When the fetched account has no identifier, that
  fetch is the last call of the run (no retry, no Read), the resource data is as it
  was, and the handler returns an error: the "cannot read ID" error when the fetch
  itself returned none, the wrapped fetch error otherwise.
\<close>

theorem follow_up_fetch_without_identifier:
  assumes run: "resourceMapsAccountCreateUpdate deps d r = (res, d', r')"
      and ev: "EvCreateOrUpdate g n p a None \<in> set (new_events r r')"
  shows "\<exists>pre read err post.
           new_events r r' = pre @ [EvCreateOrUpdate g n p a None, EvGet g n read err] @ post
         \<and> (ID read = None \<longrightarrow>
               post = [] \<and> d' = d
             \<and> res = Some (case err of Some x \<Rightarrow> ErrorRetrieving n g x
                                      | None \<Rightarrow> CannotReadID n g))"
  using run
proof (cases rule: createUpdate_run)
  case (probe_failed existing e)
  from probe_failed(1) have "new_events r r' = [EvGet (d_Get_string d ''resource_group_name'')
      (d_Get_string d ''name'') existing (Some e)]"
    by (rule new_events_append)
  with ev show ?thesis by simp
next
  case (already_exists existing err i)
  from already_exists(1) have "new_events r r' = [EvGet (d_Get_string d ''resource_group_name'')
      (d_Get_string d ''name'') existing err]"
    by (rule new_events_append)
  with ev show ?thesis by simp
next
  case (write_failed pre a' e)
  from write_failed(2) have "new_events r r' = pre @ [EvCreateOrUpdate
      (d_Get_string d ''resource_group_name'') (d_Get_string d ''name'')
      (parameters deps (d_Get_string d ''sku_name'') (d_Get_tags d ''tags'')) a' (Some e)]"
    by (rule new_events_append)
  with ev write_failed(1) show ?thesis by auto
next
  case (fetch_failed pre a' rd e)
  from fetch_failed(2) have ne: "new_events r r' = pre @ [EvCreateOrUpdate
      (d_Get_string d ''resource_group_name'') (d_Get_string d ''name'')
      (parameters deps (d_Get_string d ''sku_name'') (d_Get_tags d ''tags'')) a' None,
      EvGet (d_Get_string d ''resource_group_name'') (d_Get_string d ''name'') rd (Some e)]"
    by (rule new_events_append)
  with ev fetch_failed(1) have "g = d_Get_string d ''resource_group_name''"
    "n = d_Get_string d ''name''"
    "p = parameters deps (d_Get_string d ''sku_name'') (d_Get_tags d ''tags'')" "a = a'"
    by auto
  with ne fetch_failed(3,4) show ?thesis
    by (intro exI [of _ pre] exI [of _ rd] exI [of _ "Some e"] exI [of _ "[]"]) simp
next
  case (no_id pre a' rd)
  from no_id(2) have ne: "new_events r r' = pre @ [EvCreateOrUpdate
      (d_Get_string d ''resource_group_name'') (d_Get_string d ''name'')
      (parameters deps (d_Get_string d ''sku_name'') (d_Get_tags d ''tags'')) a' None,
      EvGet (d_Get_string d ''resource_group_name'') (d_Get_string d ''name'') rd None]"
    by (rule new_events_append)
  with ev no_id(1) have "g = d_Get_string d ''resource_group_name''"
    "n = d_Get_string d ''name''"
    "p = parameters deps (d_Get_string d ''sku_name'') (d_Get_tags d ''tags'')" "a = a'"
    by auto
  with ne no_id(4,5) show ?thesis
    by (intro exI [of _ pre] exI [of _ rd] exI [of _ None] exI [of _ "[]"]) simp
next
  case (read pre a' rd i r2)
  from read_events [OF read(4)] obtain post where
    post: "history r' = history r2 @ post" "\<forall>g n p a e. EvCreateOrUpdate g n p a e \<notin> set post"
    by blast
  with read(2) have ne: "new_events r r' = pre @ [EvCreateOrUpdate
      (d_Get_string d ''resource_group_name'') (d_Get_string d ''name'')
      (parameters deps (d_Get_string d ''sku_name'') (d_Get_tags d ''tags'')) a' None,
      EvGet (d_Get_string d ''resource_group_name'') (d_Get_string d ''name'') rd None] @ post"
    by (intro new_events_append) simp
  with ev read(1) post(2) have "g = d_Get_string d ''resource_group_name''"
    "n = d_Get_string d ''name''"
    "p = parameters deps (d_Get_string d ''sku_name'') (d_Get_tags d ''tags'')" "a = a'"
    by auto
  with ne read(3) show ?thesis
    by (intro exI [of _ pre] exI [of _ rd] exI [of _ None] exI [of _ post]) simp
qed

theorem follow_up_fetch_without_identifier_witness:
  "resourceMapsAccountCreateUpdate no_id_deps mymaps fresh =
     (Some (CannotReadID ''mymaps'' ''rg1''), mymaps,
      \<lparr>world = [((''rg1'', ''mymaps''), payload)],
       history = [EvGet ''rg1'' ''mymaps'' not_found_account (Some ''not found''),
                  EvCreateOrUpdate ''rg1'' ''mymaps'' payload payload None,
                  EvGet ''rg1'' ''mymaps'' (payload\<lparr>Response := Some 200\<rparr>) None]\<rparr>)
   \<and> (\<exists>pre read err post.
         [EvGet ''rg1'' ''mymaps'' not_found_account (Some ''not found''),
          EvCreateOrUpdate ''rg1'' ''mymaps'' payload payload None,
          EvGet ''rg1'' ''mymaps'' (payload\<lparr>Response := Some 200\<rparr>) None]
           = pre @ [EvCreateOrUpdate ''rg1'' ''mymaps'' payload payload None,
                    EvGet ''rg1'' ''mymaps'' read err] @ post
       \<and> (ID read = None \<longrightarrow>
             post = [] \<and> mymaps = mymaps
           \<and> Some (CannotReadID ''mymaps'' ''rg1'')
               = Some (case err of Some x \<Rightarrow> ErrorRetrieving ''mymaps'' ''rg1'' x
                                 | None \<Rightarrow> CannotReadID ''mymaps'' ''rg1'')))"
proof -
  let ?r = "\<lparr>world = [((''rg1'', ''mymaps''), payload)],
       history = [EvGet ''rg1'' ''mymaps'' not_found_account (Some ''not found''),
                  EvCreateOrUpdate ''rg1'' ''mymaps'' payload payload None,
                  EvGet ''rg1'' ''mymaps'' (payload\<lparr>Response := Some 200\<rparr>) None]\<rparr>"
  have ne: "new_events fresh ?r = history ?r"
    by (simp add: new_events_def fresh_def)
  have ev: "EvCreateOrUpdate ''rg1'' ''mymaps'' payload payload None \<in> set (new_events fresh ?r)"
    by (simp add: ne)
  show ?thesis
    using follow_up_fetch_without_identifier [OF no_id_run ev] no_id_run
    by (simp add: ne)
qed

text \<open>
  C10. A run that ends in one of the handler's own errors (failed probe, conflict,
  failed write, failed follow-up fetch, missing identifier) leaves the resource data,
  and so its identifier, as it was. A run that changes the identifier has made a
  successful create-or-update call followed by a fetch that returned no error and an
  identifier. (The errors of the Read that line 131 calls come after \<^verbatim>\<open>d.SetId\<close>.)
\<close>

theorem identifier_set_only_after_follow_up_fetch:
  assumes run: "resourceMapsAccountCreateUpdate deps d r = (res, d', r')"
  shows "(\<forall>e. res = Some e \<and> raised_before_SetId e \<longrightarrow> d' = d)
       \<and> (Id d' \<noteq> Id d \<longrightarrow>
            (\<exists>pre p a read i post.
               new_events r r' =
                 pre @ [EvCreateOrUpdate (d_Get_string d ''resource_group_name'')
                          (d_Get_string d ''name'') p a None,
                        EvGet (d_Get_string d ''resource_group_name'')
                          (d_Get_string d ''name'') read None] @ post
             \<and> ID read = Some i))"
  using run
proof (cases rule: createUpdate_run)
  case (read pre a rd i r2)
  from read_events [OF read(4)] obtain post where
    post: "history r' = history r2 @ post"
    by blast
  with read(2) have ne: "new_events r r' = pre @ [EvCreateOrUpdate
      (d_Get_string d ''resource_group_name'') (d_Get_string d ''name'')
      (parameters deps (d_Get_string d ''sku_name'') (d_Get_tags d ''tags'')) a None,
      EvGet (d_Get_string d ''resource_group_name'') (d_Get_string d ''name'') rd None] @ post"
    by (intro new_events_append) simp
  have "\<not> raised_before_SetId e" if "res = Some e" for e
    using read(4) that read_errors by blast
  with ne read(3) show ?thesis
    by blast
qed auto

theorem identifier_set_only_after_follow_up_fetch_witness:
  "resourceMapsAccountCreateUpdate store_deps mymaps fresh = (None, created, after_create)
   \<and> Id created \<noteq> Id mymaps
   \<and> (\<exists>pre p a read i post.
         new_events fresh after_create =
           pre @ [EvCreateOrUpdate ''rg1'' ''mymaps'' p a None,
                  EvGet ''rg1'' ''mymaps'' read None] @ post
       \<and> ID read = Some i)
   \<and> resourceMapsAccountCreateUpdate reject_deps mymaps fresh =
       (Some (ErrorCreatingUpdating ''mymaps'' ''rg1'' ''server error''), mymaps,
        \<lparr>world = [],
         history = [EvGet ''rg1'' ''mymaps'' not_found_account (Some ''not found''),
                    EvCreateOrUpdate ''rg1'' ''mymaps'' payload
                      (blank_account\<lparr>Response := Some 500\<rparr>) (Some ''server error'')]\<rparr>)
   \<and> raised_before_SetId (ErrorCreatingUpdating ''mymaps'' ''rg1'' ''server error'')"
proof -
  have c: "Id created \<noteq> Id mymaps"
    by (simp add: created_def mymaps_def)
  show ?thesis
    using identifier_set_only_after_follow_up_fetch [OF store_create_run]
      identifier_set_only_after_follow_up_fetch [OF reject_run] store_create_run reject_run c
    by (simp add: mymaps_inputs)
qed

subsection \<open>Delete\<close>

text \<open>
  C7. For a well-formed identifier, Delete followed by Delete: whenever the underlying
  delete call returns no error both times, both runs return no error and leave the
  resource data as it was. Each run makes the delete call and nothing else, so there
  is no existence check, and what the call returned besides the error is not looked
  at.
\<close>

theorem delete_twice_succeeds:
  assumes "AccountID deps (Id d) = Inr aid"
      and "Delete deps (world r) (ResourceGroup aid) (Name aid) = ((resp1, None), w1)"
      and "Delete deps w1 (ResourceGroup aid) (Name aid) = ((resp2, None), w2)"
  shows "resourceMapsAccountDelete deps d r =
           (None, d, \<lparr>world = w1,
                      history = history r @ [EvDelete (ResourceGroup aid) (Name aid) resp1 None]\<rparr>)
       \<and> resourceMapsAccountDelete deps d
           \<lparr>world = w1,
            history = history r @ [EvDelete (ResourceGroup aid) (Name aid) resp1 None]\<rparr> =
           (None, d, \<lparr>world = w2,
                      history = history r @ [EvDelete (ResourceGroup aid) (Name aid) resp1 None,
                                             EvDelete (ResourceGroup aid) (Name aid) resp2 None]\<rparr>)"
  using assms by (simp add: resourceMapsAccountDelete_def client_Delete_def)

theorem delete_twice_succeeds_witness:
  "AccountID store_deps (Id gone) = Inr \<lparr>ResourceGroup = ''rg1'', Name = ''mymaps''\<rparr>
   \<and> Delete store_deps (world taken) ''rg1'' ''mymaps'' = ((Some 200, None), [])
   \<and> Delete store_deps [] ''rg1'' ''mymaps'' = ((Some 200, None), [])
   \<and> resourceMapsAccountDelete store_deps gone taken =
        (None, gone, \<lparr>world = [], history = [EvDelete ''rg1'' ''mymaps'' (Some 200) None]\<rparr>)
   \<and> resourceMapsAccountDelete store_deps gone
        \<lparr>world = [], history = [EvDelete ''rg1'' ''mymaps'' (Some 200) None]\<rparr> =
        (None, gone, \<lparr>world = [], history = [EvDelete ''rg1'' ''mymaps'' (Some 200) None,
                                              EvDelete ''rg1'' ''mymaps'' (Some 200) None]\<rparr>)"
proof -
  let ?aid = "\<lparr>ResourceGroup = ''rg1'', Name = ''mymaps''\<rparr>"
  have a: "AccountID store_deps (Id gone) = Inr ?aid"
    by (simp add: store_defs gone_def)
  have d1: "Delete store_deps (world taken) (ResourceGroup ?aid) (Name ?aid)
              = ((Some 200, None), [])"
    by (simp add: store_defs taken_def)
  have d2: "Delete store_deps [] (ResourceGroup ?aid) (Name ?aid) = ((Some 200, None), [])"
    by (simp add: store_defs)
  show ?thesis
    using delete_twice_succeeds [OF a d1 d2] a d1 d2
    by (simp add: taken_def)
qed

subsection \<open>What Read stores\<close>

text \<open>
  C3, as amended. For a well-formed identifier: when the fetch and the listing of the
  keys both return no error, Read stores \<^verbatim>\<open>primary_access_key\<close> and
  \<^verbatim>\<open>secondary_access_key\<close> from the keys, and stores \<^verbatim>\<open>x_ms_client_id\<close> when the
  fetched account has a properties block; without one, \<^verbatim>\<open>x_ms_client_id\<close> keeps what
  it held. When the fetch returns an error (the account is not found, or any other
  failure), no attribute is stored at all.
\<close>

theorem read_populates_computed_fields:
  assumes aid: "AccountID deps (Id d) = Inr aid"
      and get: "Get deps (world r) (ResourceGroup aid) (Name aid) = ((resp, err), w)"
      and keys: "ListKeys deps w (ResourceGroup aid) (Name aid) = ((keys, err2), w2)"
      and run: "resourceMapsAccountRead deps d r = (res, d', r')"
  shows "(err = None \<and> err2 = None \<longrightarrow>
            attrs d' ''primary_access_key'' = Some (VStringPtr (PrimaryKey keys))
          \<and> attrs d' ''secondary_access_key'' = Some (VStringPtr (SecondaryKey keys))
          \<and> attrs d' ''x_ms_client_id'' =
              (case Properties resp of
                 Some props \<Rightarrow> Some (VStringPtr (UniqueID props))
               | None \<Rightarrow> attrs d ''x_ms_client_id''))
       \<and> (err \<noteq> None \<longrightarrow> attrs d' = attrs d)"
  using assms
  by (auto simp: resourceMapsAccountRead_def client_Get_def client_ListKeys_def
      FlattenAndSet_def d_Set_def d_SetId_def Let_def split: option.splits if_splits)

theorem read_populates_computed_fields_witness:
  "AccountID store_deps (Id created) = Inr \<lparr>ResourceGroup = ''rg1'', Name = ''mymaps''\<rparr>
   \<and> Get store_deps (world after_create) ''rg1'' ''mymaps'' = ((stored, None), world after_create)
   \<and> ListKeys store_deps (world after_create) ''rg1'' ''mymaps''
       = ((the_keys, None), world after_create)
   \<and> resourceMapsAccountRead store_deps created after_create = (None, created, after_read)
   \<and> attrs created ''primary_access_key'' = Some (VStringPtr (Some ''key-1''))
   \<and> attrs created ''secondary_access_key'' = Some (VStringPtr (Some ''key-2''))
   \<and> attrs created ''x_ms_client_id'' = Some (VStringPtr (Some ''client-1''))"
proof -
  let ?aid = "\<lparr>ResourceGroup = ''rg1'', Name = ''mymaps''\<rparr>"
  have a: "AccountID store_deps (Id created) = Inr ?aid"
    by (simp add: store_defs created_def)
  have g: "Get store_deps (world after_create) (ResourceGroup ?aid) (Name ?aid)
             = ((stored, None), world after_create)"
    by (simp add: store_defs after_create_def stored_def)
  have k: "ListKeys store_deps (world after_create) (ResourceGroup ?aid) (Name ?aid)
             = ((the_keys, None), world after_create)"
    by (simp add: store_defs after_create_def the_keys_def)
  show ?thesis
    using read_populates_computed_fields [OF a g k store_read_run] a g k store_read_run
    by (simp add: stored_def the_keys_def)
qed

text \<open>
  The claim as first stated has Read store all three computed attributes whenever both
  calls succeed. The guard of line 159 makes this fail: the account below exists and
  has no properties block, both calls succeed, both keys are stored, and
  \<^verbatim>\<open>x_ms_client_id\<close> stays unset.
\<close>

theorem read_leaves_client_id_unset_counterexample:
  "snd (fst (Get store_deps (world taken) ''rg1'' ''mymaps'')) = None
   \<and> snd (fst (ListKeys store_deps (world taken) ''rg1'' ''mymaps'')) = None
   \<and> fst (resourceMapsAccountRead store_deps gone taken) = None
   \<and> attrs gone ''x_ms_client_id'' = None
   \<and> attrs (fst (snd (resourceMapsAccountRead store_deps gone taken))) ''x_ms_client_id'' = None
   \<and> attrs (fst (snd (resourceMapsAccountRead store_deps gone taken))) ''primary_access_key''
       = Some (VStringPtr (Some ''key-1''))
   \<and> attrs (fst (snd (resourceMapsAccountRead store_deps gone taken))) ''secondary_access_key''
       = Some (VStringPtr (Some ''key-2''))"
  by (simp add: bare_read_run) (simp add: store_defs taken_def gone_def mymaps_def)

subsection \<open>Create, then Read\<close>

text \<open>
  C8. Take any input, a create that returns no error and leaves an identifier, and a
  Read after it that returns no error, against a service that hands back what was
  written: every account fetched after the write, under the resource group and name
  written to, reports the sku name of the submitted payload and carries an identifier
  that decodes to that resource group and name. Then \<^verbatim>\<open>name\<close>,
  \<^verbatim>\<open>resource_group_name\<close> and \<^verbatim>\<open>sku_name\<close> read back equal to the input. The
  round trip rests on the handler: it writes the \<^verbatim>\<open>sku_name\<close> input into the payload
  and addresses the write to the resource group and name of the input.
\<close>

theorem create_then_read_round_trip:
  assumes create: "resourceMapsAccountCreateUpdate deps d r = (None, d1, r1)"
      and kept: "Id d1 \<noteq> []"
      and read: "resourceMapsAccountRead deps d1 r1 = (None, d2, r2)"
      and echo: "fetches_echo deps (new_events r r2)"
  shows "d_Get_string d2 ''name'' = d_Get_string d ''name''
       \<and> d_Get_string d2 ''resource_group_name'' = d_Get_string d ''resource_group_name''
       \<and> d_Get_string d2 ''sku_name'' = d_Get_string d ''sku_name''"
proof -
  let ?g = "d_Get_string d ''resource_group_name''" and ?n = "d_Get_string d ''name''"
  let ?s = "d_Get_string d ''sku_name''"
  let ?p = "parameters deps ?s (d_Get_tags d ''tags'')"
  have sku_p: "map_option SkuName (Sku ?p) = Some ?s"
    by (simp add: parameters_def)
  from create obtain pre a rd i r0 where
    r0: "history r0 = history r @ pre @ [EvCreateOrUpdate ?g ?n ?p a None, EvGet ?g ?n rd None]"
      and rd: "ID rd = Some i"
      and inner: "resourceMapsAccountRead deps (d_SetId d i) r0 = (None, d1, r1)"
    by (cases rule: createUpdate_run) auto
  from inner kept obtain aid1 :: AccountId and resp1 keys1 where
    first: "AccountID deps (Id (d_SetId d i)) = Inr aid1"
      "history r1 = history r0 @ [EvGet (ResourceGroup aid1) (Name aid1) resp1 None,
                                  EvListKeys (ResourceGroup aid1) (Name aid1) keys1 None]"
      "Id d1 = Id (d_SetId d i)"
      "d_Get_string d1 ''name'' = Name aid1"
      "d_Get_string d1 ''resource_group_name'' = ResourceGroup aid1"
      "d_Get_string d1 ''sku_name'' =
         (case Sku resp1 of Some k \<Rightarrow> SkuName k
          | None \<Rightarrow> d_Get_string (d_SetId d i) ''sku_name'')"
    by (rule read_found)
  from read_events [OF read] obtain evs2 where evs2: "history r2 = history r1 @ evs2"
    by blast
  let ?post = "[EvGet ?g ?n rd None,
                EvGet (ResourceGroup aid1) (Name aid1) resp1 None,
                EvListKeys (ResourceGroup aid1) (Name aid1) keys1 None] @ evs2"
  from r0 first(2) evs2 have "new_events r r2 = pre @ EvCreateOrUpdate ?g ?n ?p a None # ?post"
    by (intro new_events_append) simp
  with echo have e: "fetches_echo deps (pre @ EvCreateOrUpdate ?g ?n ?p a None # ?post)"
    by simp
  have after: "echoes_write deps ?g ?n ?p acct" if "EvGet ?g ?n acct None \<in> set ?post" for acct
    using e that by (rule fetches_echo_after_write)
  have "echoes_write deps ?g ?n ?p rd"
    by (rule after) simp
  with rd first(1) have aid1: "ResourceGroup aid1 = ?g" "Name aid1 = ?n"
    by (auto simp: echoes_write_def)
  have "echoes_write deps ?g ?n ?p resp1"
    by (rule after) (simp add: aid1)
  with sku_p first(6) have sku1: "d_Get_string d1 ''sku_name'' = ?s"
    by (auto simp: echoes_write_def split: option.splits)
  from read show ?thesis
  proof (cases rule: read_cases)
    case (not_found aid2 resp2 e2)
    then have "d_Get_string d2 k = d_Get_string d1 k" for k
      by (simp add: d_Get_string_def)
    with first(4,5) aid1 sku1 show ?thesis
      by simp
  next
    case (found aid2 resp2 keys2)
    from found(1) first(1,3) have same: "aid2 = aid1"
      by simp
    from found(2) evs2 have "evs2 = [EvGet (ResourceGroup aid2) (Name aid2) resp2 None,
                                     EvListKeys (ResourceGroup aid2) (Name aid2) keys2 None]"
      by simp
    then have "echoes_write deps ?g ?n ?p resp2"
      by (intro after) (simp add: same aid1)
    with sku_p found(7) sku1 have "d_Get_string d2 ''sku_name'' = ?s"
      by (auto simp: echoes_write_def split: option.splits)
    with found(5,6) same aid1 show ?thesis
      by simp
  qed simp_all
qed

theorem create_then_read_round_trip_witness:
  "resourceMapsAccountCreateUpdate store_deps mymaps fresh = (None, created, after_create)
   \<and> Id created \<noteq> []
   \<and> resourceMapsAccountRead store_deps created after_create = (None, created, after_read)
   \<and> fetches_echo store_deps (new_events fresh after_read)
   \<and> d_Get_string created ''name'' = ''mymaps''
   \<and> d_Get_string created ''resource_group_name'' = ''rg1''
   \<and> d_Get_string created ''sku_name'' = ''S0''"
proof -
  have k: "Id created \<noteq> []"
    by (simp add: created_def)
  have e: "fetches_echo store_deps (new_events fresh after_read)"
    by (simp add: new_events_def fresh_def after_read_def after_create_def echoes_write_def
        stored_def payload_def store_defs)
  show ?thesis
    using create_then_read_round_trip [OF store_create_run k store_read_run e]
      store_create_run store_read_run k e
    by (simp add: mymaps_inputs)
qed

end
